theory Spec2Isabelle
  imports Main
begin

section \<open>The joke agent script (mongo-vcore-agent-python/agent.py)\<close>

text \<open>
  The script is twenty-seven lines of driver code around three collaborators that live
  outside the repository: the credential resolver (azure.identity), the agent client
  (agent\_framework.azure) and the process environment. The driver is embedded as a
  state-passing program over a trace of the calls it makes; what the collaborators answer
  is a parameter of the embedding, so every theorem holds for the real libraries and for
  any test double alike.
\<close>

subsection \<open>Data\<close>

text \<open>An exception raised by a collaborator; the driver never inspects it.\<close>

datatype exn = Exn string

text \<open>The process environment read by \<open>os.getenv\<close>: an unset variable gives \<open>None\<close>.\<close>

type_synonym environ = "string \<rightharpoonup> string"

text \<open>Line 8: what \<open>get_token\<close> returns.\<close>

datatype AccessToken = AccessToken (token: string) (expires_on: int)

text \<open>
  Lines 12 to 15: the keyword arguments of the client constructor. The first three are
  results of \<open>os.getenv\<close> (a string or \<open>None\<close>), the last is a string literal.
\<close>

record config =
  endpoint :: "string option"
  deployment_name :: "string option"
  api_version :: "string option"
  api_key :: "string option"

text \<open>
  The collaborators. A call either returns or raises, the constructor of the credential
  in line 7 (called with no argument) like the others. The credential, the client, the
  agent and the response are opaque to the driver (type parameters); of a response it
  reads only the \<open>.text\<close> attribute, here \<open>result_text\<close>.
\<close>

record ('k, 'c, 'a, 'r) sdk =
  DefaultAzureCredential :: "exn + 'k"
  get_token :: "'k \<Rightarrow> string \<Rightarrow> exn + AccessToken"
  AzureOpenAIChatClient :: "config \<Rightarrow> exn + 'c"
  create_agent :: "'c \<Rightarrow> string \<Rightarrow> string \<Rightarrow> exn + 'a"
  run :: "'a \<Rightarrow> string \<Rightarrow> exn + 'r"
  result_text :: "'r \<Rightarrow> string"

text \<open>
  What the driver does to the outside, in program order: a token request with its scope,
  a read of an environment variable, the construction of the client with its arguments,
  \<open>create_agent\<close> on a client with instructions and name, \<open>run\<close> on an agent with a
  prompt, and characters written to standard output. The construction of the credential
  has no argument and requests no token; it is a step of the script that can raise, and
  it leaves no event.
\<close>

datatype ('c, 'a) event =
    is_GetToken: GetToken string
  | is_Getenv: Getenv string
  | is_NewClient: NewClient config
  | is_CreateAgent: CreateAgent 'c string string
  | is_Run: Run 'a string
  | is_Stdout: Stdout string

type_synonym ('c, 'a) trace = "('c, 'a) event list"

text \<open>A statement: from the trace so far to the extended trace and a value or an exception.\<close>

type_synonym ('c, 'a, 'x) io = "('c, 'a) trace \<Rightarrow> ('c, 'a) trace \<times> (exn + 'x)"

subsection \<open>Sequencing\<close>

text \<open>An exception ends the sequence: the script has no \<open>try\<close>.\<close>

definition and_then :: "('c, 'a, 'x) io \<Rightarrow> ('x \<Rightarrow> ('c, 'a, 'y) io) \<Rightarrow> ('c, 'a, 'y) io" where
  "and_then m f t = (case m t of (t', Inl e) \<Rightarrow> (t', Inl e) | (t', Inr x) \<Rightarrow> f x t')"

definition call :: "('c, 'a) event \<Rightarrow> exn + 'x \<Rightarrow> ('c, 'a, 'x) io" where
  "call ev answer t = (t @ [ev], answer)"

text \<open>
  A call that asks nothing of the outside: it leaves no event, and returns or raises.
\<close>

definition construct :: "exn + 'x \<Rightarrow> ('c, 'a, 'x) io" where
  "construct answer t = (t, answer)"

definition getenv :: "environ \<Rightarrow> string \<Rightarrow> ('c, 'a, string option) io" where
  "getenv env key = call (Getenv key) (Inr (env key))"

text \<open>\<open>print(x)\<close> for a string \<open>x\<close>: the string, then the line terminator.\<close>

definition print :: "string \<Rightarrow> ('c, 'a, unit) io" where
  "print x = call (Stdout (x @ [CHR 0x0A])) (Inr ())"

text \<open>Falling off the end of a block.\<close>

definition pass :: "('c, 'a, unit) io" where
  "pass t = (t, Inr ())"

subsection \<open>The script\<close>

text \<open>
  Lines 7 to 20, the module level: everything up to the binding of \<open>agent\<close>. Line 7
  constructs the credential, which requests no token yet but may raise; line 8 asks it
  for the token. Keyword arguments are evaluated left to right before the constructor of
  the client is called. The token is bound and not used again (line 16 is a comment).
\<close>

definition agent :: "('k, 'c, 'a, 'r) sdk \<Rightarrow> environ \<Rightarrow> ('c, 'a, 'a) io" where
  "agent w env =
     and_then (construct (DefaultAzureCredential w)) (\<lambda>credential.
     and_then (call (GetToken ''https://ai.azure.com/.default'')
                 (get_token w credential ''https://ai.azure.com/.default'')) (\<lambda>token.
     and_then (getenv env ''AZURE_OPENAI_ENDPOINT'') (\<lambda>ep.
     and_then (getenv env ''AZURE_OPENAI_CHAT_DEPLOYMENT_NAME'') (\<lambda>dn.
     and_then (getenv env ''AZURE_OPENAI_API_VERSION'') (\<lambda>av.
     let kwargs = \<lparr>endpoint = ep, deployment_name = dn, api_version = av,
                    api_key = Some ''''\<rparr> in
     and_then (call (NewClient kwargs) (AzureOpenAIChatClient w kwargs)) (\<lambda>client.
     call (CreateAgent client ''You are good at telling jokes.'' ''Joker'')
       (create_agent w client ''You are good at telling jokes.'' ''Joker'')))))))"

text \<open>Lines 22 to 24: the coroutine \<open>main\<close>, with its one \<open>await\<close>.\<close>

definition main :: "('k, 'c, 'a, 'r) sdk \<Rightarrow> 'a \<Rightarrow> ('c, 'a, unit) io" where
  "main w a =
     and_then (call (Run a ''Tell me a joke about a pirate.'')
                 (run w a ''Tell me a joke about a pirate.'')) (\<lambda>result.
     print (result_text w result))"

text \<open>\<open>asyncio.run\<close> drives the coroutine to its end and hands on what it returns or raises.\<close>

definition asyncio_run :: "('c, 'a, 'x) io \<Rightarrow> ('c, 'a, 'x) io" where
  "asyncio_run coro = coro"

text \<open>
  The whole module, executed with \<open>__name__\<close> bound to \<open>nm\<close>: the module level, then
  lines 26 and 27.
\<close>

definition module :: "('k, 'c, 'a, 'r) sdk \<Rightarrow> environ \<Rightarrow> string \<Rightarrow> ('c, 'a, unit) io" where
  "module w env nm =
     and_then (agent w env) (\<lambda>a.
     if nm = ''__main__'' then asyncio_run (main w a) else pass)"

subsection \<open>The process\<close>

text \<open>
  How the interpreter ends: normally, or with the traceback of an exception nobody
  caught. The exit status is 0 in the first case and 1 in the second.
\<close>

datatype outcome = Completed | Uncaught exn

fun exit_status :: "outcome \<Rightarrow> nat" where
  "exit_status Completed = 0"
| "exit_status (Uncaught e) = 1"

text \<open>
  One execution of the module from an empty trace, by an interpreter that does nothing
  else: the calls made and the ending. \<open>nm\<close> is "\_\_main\_\_" when the file is run as a
  script and the module's name when it is imported.
\<close>

definition script :: "('k, 'c, 'a, 'r) sdk \<Rightarrow> environ \<Rightarrow> string \<Rightarrow> ('c, 'a) trace \<times> outcome" where
  "script w env nm =
     (case module w env nm [] of
        (t, Inl e) \<Rightarrow> (t, Uncaught e)
      | (t, Inr u) \<Rightarrow> (t, Completed))"

text \<open>Everything written to standard output, in order.\<close>

fun stdout :: "('c, 'a) trace \<Rightarrow> string" where
  "stdout [] = []"
| "stdout (Stdout s # t) = s @ stdout t"
| "stdout (e # t) = stdout t"

text \<open>The keyword arguments of every client construction in a trace, in order.\<close>

fun configs :: "('c, 'a) trace \<Rightarrow> config list" where
  "configs [] = []"
| "configs (NewClient kw # t) = kw # configs t"
| "configs (e # t) = configs t"

subsection \<open>The contract of the client library\<close>

text \<open>
  Modelled from the spec: the client library (agent\_framework.azure) is not part of the
  repository, so what its constructor does with an absent value is not in the source.
  The spec gives its contract: absence of a required value (endpoint, deployment name or
  API version) is deferred to the downstream client, which fails with a configuration
  error.
\<close>

definition fails_on_absent :: "('k, 'c, 'a, 'r) sdk \<Rightarrow> bool" where
  "fails_on_absent w \<longleftrightarrow>
     (\<forall>kw. endpoint kw = None \<or> deployment_name kw = None \<or> api_version kw = None
        \<longrightarrow> isl (AzureOpenAIChatClient w kw))"

subsection \<open>Test doubles and environments\<close>

text \<open>
  A mocked SDK whose every call returns: credential 0, client 1, agent 2, and a response
  that is the given joke.
\<close>

definition stub :: "string \<Rightarrow> (nat, nat, nat, string) sdk" where
  "stub joke =
     \<lparr>DefaultAzureCredential = Inr 0,
      get_token = (\<lambda>c s. Inr (AccessToken ''eyJ0'' 1762182000)),
      AzureOpenAIChatClient = (\<lambda>kw. Inr 1),
      create_agent = (\<lambda>c i n. Inr 2),
      run = (\<lambda>a p. Inr joke),
      result_text = (\<lambda>r. r)\<rparr>"

text \<open>The same, with a constructor that keeps the contract above.\<close>

definition strict_stub :: "string \<Rightarrow> (nat, nat, nat, string) sdk" where
  "strict_stub joke =
     (stub joke)\<lparr>AzureOpenAIChatClient :=
        (\<lambda>kw. if endpoint kw = None \<or> deployment_name kw = None \<or> api_version kw = None
              then Inl (Exn ''configuration error'') else Inr 1)\<rparr>"

definition example_env :: environ where
  "example_env =
     [''AZURE_OPENAI_ENDPOINT'' \<mapsto> ''https://example.openai.azure.com'',
      ''AZURE_OPENAI_CHAT_DEPLOYMENT_NAME'' \<mapsto> ''gpt-4o'',
      ''AZURE_OPENAI_API_VERSION'' \<mapsto> ''2024-10-21'']"

text \<open>An environment without the API version.\<close>

definition partial_env :: environ where
  "partial_env =
     [''AZURE_OPENAI_ENDPOINT'' \<mapsto> ''https://example.openai.azure.com'',
      ''AZURE_OPENAI_CHAT_DEPLOYMENT_NAME'' \<mapsto> ''gpt-4o'']"

text \<open>An environment in which every variable, whatever its name, holds the same value.\<close>

definition all_set_to :: "string \<Rightarrow> environ" where
  "all_set_to v key = Some v"

section \<open>Properties\<close>

subsection \<open>Every execution, path by path\<close>

lemmas run_defs = and_then_def call_def construct_def getenv_def print_def pass_def agent_def main_def
  asyncio_run_def module_def script_def

text \<open>The script has no loop and no handler, so an execution is one of seven paths.\<close>

lemma script_eq:
  "script w env nm =
    (case DefaultAzureCredential w of
       Inl e \<Rightarrow> ([], Uncaught e)
     | Inr cred \<Rightarrow>
    (case get_token w cred ''https://ai.azure.com/.default'' of
       Inl e \<Rightarrow> ([GetToken ''https://ai.azure.com/.default''], Uncaught e)
     | Inr tok \<Rightarrow>
        (let kw = \<lparr>endpoint = env ''AZURE_OPENAI_ENDPOINT'',
                    deployment_name = env ''AZURE_OPENAI_CHAT_DEPLOYMENT_NAME'',
                    api_version = env ''AZURE_OPENAI_API_VERSION'', api_key = Some ''''\<rparr>;
             t1 = [GetToken ''https://ai.azure.com/.default'', Getenv ''AZURE_OPENAI_ENDPOINT'',
                   Getenv ''AZURE_OPENAI_CHAT_DEPLOYMENT_NAME'', Getenv ''AZURE_OPENAI_API_VERSION'',
                   NewClient kw]
         in case AzureOpenAIChatClient w kw of
              Inl e \<Rightarrow> (t1, Uncaught e)
            | Inr c \<Rightarrow>
               (let t2 = t1 @ [CreateAgent c ''You are good at telling jokes.'' ''Joker'']
                in case create_agent w c ''You are good at telling jokes.'' ''Joker'' of
                     Inl e \<Rightarrow> (t2, Uncaught e)
                   | Inr a \<Rightarrow>
                      if nm = ''__main__'' then
                        (case run w a ''Tell me a joke about a pirate.'' of
                           Inl e \<Rightarrow> (t2 @ [Run a ''Tell me a joke about a pirate.''], Uncaught e)
                         | Inr r \<Rightarrow> (t2 @ [Run a ''Tell me a joke about a pirate.'',
                                     Stdout (result_text w r @ [CHR 0x0A])], Completed))
                      else (t2, Completed)))))"
  by (simp add: run_defs Let_def split: sum.splits)

text \<open>The module level alone, the same way.\<close>

lemma agent_eq:
  "agent w env [] =
    (case DefaultAzureCredential w of
       Inl e \<Rightarrow> ([], Inl e)
     | Inr cred \<Rightarrow>
    (case get_token w cred ''https://ai.azure.com/.default'' of
       Inl e \<Rightarrow> ([GetToken ''https://ai.azure.com/.default''], Inl e)
     | Inr tok \<Rightarrow>
        (let kw = \<lparr>endpoint = env ''AZURE_OPENAI_ENDPOINT'',
                    deployment_name = env ''AZURE_OPENAI_CHAT_DEPLOYMENT_NAME'',
                    api_version = env ''AZURE_OPENAI_API_VERSION'', api_key = Some ''''\<rparr>;
             t1 = [GetToken ''https://ai.azure.com/.default'', Getenv ''AZURE_OPENAI_ENDPOINT'',
                   Getenv ''AZURE_OPENAI_CHAT_DEPLOYMENT_NAME'', Getenv ''AZURE_OPENAI_API_VERSION'',
                   NewClient kw]
         in case AzureOpenAIChatClient w kw of
              Inl e \<Rightarrow> (t1, Inl e)
            | Inr c \<Rightarrow>
                (t1 @ [CreateAgent c ''You are good at telling jokes.'' ''Joker''],
                 create_agent w c ''You are good at telling jokes.'' ''Joker''))))"
  by (simp add: run_defs Let_def split: sum.splits)

lemma stub_simps [simp]:
  "DefaultAzureCredential (stub j) = Inr 0"
  "get_token (stub j) c s = Inr (AccessToken ''eyJ0'' 1762182000)"
  "AzureOpenAIChatClient (stub j) kw = Inr 1"
  "create_agent (stub j) cl i n = Inr 2"
  "run (stub j) a p = Inr j"
  "result_text (stub j) r = r"
  by (simp_all add: stub_def)

lemma example_env_simps [simp]:
  "example_env ''AZURE_OPENAI_ENDPOINT'' = Some ''https://example.openai.azure.com''"
  "example_env ''AZURE_OPENAI_CHAT_DEPLOYMENT_NAME'' = Some ''gpt-4o''"
  "example_env ''AZURE_OPENAI_API_VERSION'' = Some ''2024-10-21''"
  by (simp_all add: example_env_def)

lemma partial_env_simps [simp]:
  "partial_env ''AZURE_OPENAI_ENDPOINT'' = Some ''https://example.openai.azure.com''"
  "partial_env ''AZURE_OPENAI_CHAT_DEPLOYMENT_NAME'' = Some ''gpt-4o''"
  "partial_env ''AZURE_OPENAI_API_VERSION'' = None"
  by (simp_all add: partial_env_def)

subsection \<open>The calls on the agent client\<close>

text \<open>
  C1. Run as the main module with a configuration the client accepts and a mocked agent
  client, that is, once the credential is constructed, the token request has returned,
  the constructor has returned a client for the arguments read from the environment and
  \<open>create_agent\<close> has returned an
  agent: the create and run calls of the execution are exactly one \<open>create_agent\<close> with
  the instructions "You are good at telling jokes." and the name "Joker", followed by
  exactly one \<open>run\<close> with the prompt "Tell me a joke about a pirate."; whether that run
  returns or raises, there is no other.
\<close>

theorem create_once_then_run_once:
  assumes "DefaultAzureCredential w = Inr cred"
    and "get_token w cred ''https://ai.azure.com/.default'' = Inr tok"
    and "AzureOpenAIChatClient w
           \<lparr>endpoint = env ''AZURE_OPENAI_ENDPOINT'',
            deployment_name = env ''AZURE_OPENAI_CHAT_DEPLOYMENT_NAME'',
            api_version = env ''AZURE_OPENAI_API_VERSION'', api_key = Some ''''\<rparr> = Inr client"
    and "create_agent w client ''You are good at telling jokes.'' ''Joker'' = Inr a"
  shows "filter (\<lambda>ev. is_CreateAgent ev \<or> is_Run ev) (fst (script w env ''__main__'')) =
           [CreateAgent client ''You are good at telling jokes.'' ''Joker'',
            Run a ''Tell me a joke about a pirate.'']"
proof (cases "run w a ''Tell me a joke about a pirate.''")
  case (Inl e)
  with assms show ?thesis by (simp add: script_eq)
next
  case (Inr r)
  with assms show ?thesis by (simp add: script_eq)
qed

theorem create_once_then_run_once_witness:
  "get_token (stub ''Arr!'') 0 ''https://ai.azure.com/.default''
     = Inr (AccessToken ''eyJ0'' 1762182000) \<and>
   create_agent (stub ''Arr!'') 1 ''You are good at telling jokes.'' ''Joker'' = Inr 2 \<and>
   filter (\<lambda>ev. is_CreateAgent ev \<or> is_Run ev)
       (fst (script (stub ''Arr!'') example_env ''__main__'')) =
     [CreateAgent 1 ''You are good at telling jokes.'' ''Joker'',
      Run 2 ''Tell me a joke about a pirate.'']"
  using create_once_then_run_once [where w = "stub ''Arr!''" and env = example_env
      and cred = 0 and tok = "AccessToken ''eyJ0'' 1762182000" and client = 1 and a = 2]
  by simp

subsection \<open>What is printed\<close>

text \<open>
  C2, as stated, fails: \<open>print\<close> ends the line. With a response whose text is "Arr!"
  the characters on standard output are "Arr!" and a newline, which is not the text.
\<close>

theorem printed_output_is_not_the_text_alone:
  "run (stub ''Arr!'') 2 ''Tell me a joke about a pirate.'' = Inr ''Arr!'' \<and>
   stdout (fst (script (stub ''Arr!'') example_env ''__main__'')) = ''Arr!\<newline>'' \<and>
   stdout (fst (script (stub ''Arr!'') example_env ''__main__'')) \<noteq> result_text (stub ''Arr!'') ''Arr!''"
  by (simp add: script_eq)

text \<open>
  C2, amended. For every response the run call returns, standard output holds exactly
  the response's text, unchanged, followed by the one newline that \<open>print\<close> appends, and
  nothing else.
\<close>

theorem printed_output_is_text_and_newline:
  assumes "DefaultAzureCredential w = Inr cred"
    and "get_token w cred ''https://ai.azure.com/.default'' = Inr tok"
    and "AzureOpenAIChatClient w
           \<lparr>endpoint = env ''AZURE_OPENAI_ENDPOINT'',
            deployment_name = env ''AZURE_OPENAI_CHAT_DEPLOYMENT_NAME'',
            api_version = env ''AZURE_OPENAI_API_VERSION'', api_key = Some ''''\<rparr> = Inr client"
    and "create_agent w client ''You are good at telling jokes.'' ''Joker'' = Inr a"
    and "run w a ''Tell me a joke about a pirate.'' = Inr r"
  shows "stdout (fst (script w env ''__main__'')) = result_text w r @ ''\<newline>''"
  using assms by (simp add: script_eq)

theorem printed_output_is_text_and_newline_witness:
  "run (stub ''Why did the pirate...'') 2 ''Tell me a joke about a pirate.''
     = Inr ''Why did the pirate...'' \<and>
   stdout (fst (script (stub ''Why did the pirate...'') example_env ''__main__'')) =
     result_text (stub ''Why did the pirate...'') ''Why did the pirate...'' @ ''\<newline>''"
  using printed_output_is_text_and_newline [where w = "stub ''Why did the pirate...''"
      and env = example_env and cred = 0 and tok = "AccessToken ''eyJ0'' 1762182000" and client = 1
      and a = 2 and r = "''Why did the pirate...''"]
  by simp

subsection \<open>The configuration\<close>

text \<open>
  C3, as stated, fails for the API key. In an environment where every variable holds
  "sk-live", the API key given to the client is the empty string, a value that no
  variable of that environment holds.
\<close>

theorem api_key_not_from_environment:
  "map api_key (configs (fst (script (stub ''Arr!'') (all_set_to ''sk-live'') ''__main__'')))
     = [Some ''''] \<and>
   \<not> (\<exists>key. all_set_to ''sk-live'' key = Some '''')"
  by (simp add: script_eq all_set_to_def)

text \<open>
  C3, amended. Once the credential is constructed and the token request has returned
  (so that lines 11 to 16 are reached), the client is constructed exactly
  once, and for every environment its arguments are: as endpoint, deployment name and
  API version whatever \<open>os.getenv\<close> gives for AZURE\_OPENAI\_ENDPOINT,
  AZURE\_OPENAI\_CHAT\_DEPLOYMENT\_NAME and AZURE\_OPENAI\_API\_VERSION (also when that is
  \<open>None\<close>), and as API key the empty string, independent of the environment. These three
  are the only variables read, and nothing but the token request and the three reads
  comes before the construction: no value is checked.
\<close>

theorem client_config_unvalidated:
  assumes "DefaultAzureCredential w = Inr cred"
    and "get_token w cred ''https://ai.azure.com/.default'' = Inr tok"
  shows "configs (fst (script w env nm)) =
           [\<lparr>endpoint = env ''AZURE_OPENAI_ENDPOINT'',
             deployment_name = env ''AZURE_OPENAI_CHAT_DEPLOYMENT_NAME'',
             api_version = env ''AZURE_OPENAI_API_VERSION'', api_key = Some ''''\<rparr>] \<and>
         filter is_Getenv (fst (script w env nm)) =
           [Getenv ''AZURE_OPENAI_ENDPOINT'', Getenv ''AZURE_OPENAI_CHAT_DEPLOYMENT_NAME'',
            Getenv ''AZURE_OPENAI_API_VERSION''] \<and>
         takeWhile (\<lambda>ev. \<not> is_NewClient ev) (fst (script w env nm)) =
           [GetToken ''https://ai.azure.com/.default'', Getenv ''AZURE_OPENAI_ENDPOINT'',
            Getenv ''AZURE_OPENAI_CHAT_DEPLOYMENT_NAME'', Getenv ''AZURE_OPENAI_API_VERSION'']"
  using assms by (simp add: script_eq Let_def split: sum.splits)

theorem client_config_unvalidated_witness:
  "get_token (stub ''Arr!'') 0 ''https://ai.azure.com/.default''
     = Inr (AccessToken ''eyJ0'' 1762182000) \<and>
   configs (fst (script (stub ''Arr!'') partial_env ''__main__'')) =
     [\<lparr>endpoint = Some ''https://example.openai.azure.com'',
       deployment_name = Some ''gpt-4o'', api_version = None, api_key = Some ''''\<rparr>]"
  using client_config_unvalidated [where w = "stub ''Arr!''" and env = partial_env
      and nm = "''__main__''" and cred = 0 and tok = "AccessToken ''eyJ0'' 1762182000"]
  by simp

text \<open>
  C4. Let the client keep the contract the spec gives it (\<open>fails_on_absent\<close>), and let
  at least one of the three variables be absent from the environment. Then the execution
  ends with a non-zero exit status and nothing on standard output. The driver has not
  looked at the value: once the credential is constructed and the token request has
  returned, the trace is the token request, the three reads and the construction of the
  client with the values as read, \<open>None\<close> among them; that construction raises, and it
  is the last thing that happens.
\<close>

theorem absent_variable_fails_without_output:
  assumes "fails_on_absent w"
    and "env ''AZURE_OPENAI_ENDPOINT'' = None \<or>
         env ''AZURE_OPENAI_CHAT_DEPLOYMENT_NAME'' = None \<or>
         env ''AZURE_OPENAI_API_VERSION'' = None"
  shows "exit_status (snd (script w env nm)) \<noteq> 0 \<and>
         stdout (fst (script w env nm)) = [] \<and>
         (DefaultAzureCredential w = Inr cred \<and>
          get_token w cred ''https://ai.azure.com/.default'' = Inr tok \<longrightarrow>
            isl (AzureOpenAIChatClient w
                   \<lparr>endpoint = env ''AZURE_OPENAI_ENDPOINT'',
                    deployment_name = env ''AZURE_OPENAI_CHAT_DEPLOYMENT_NAME'',
                    api_version = env ''AZURE_OPENAI_API_VERSION'', api_key = Some ''''\<rparr>) \<and>
            fst (script w env nm) =
              [GetToken ''https://ai.azure.com/.default'', Getenv ''AZURE_OPENAI_ENDPOINT'',
               Getenv ''AZURE_OPENAI_CHAT_DEPLOYMENT_NAME'', Getenv ''AZURE_OPENAI_API_VERSION'',
               NewClient
                 \<lparr>endpoint = env ''AZURE_OPENAI_ENDPOINT'',
                  deployment_name = env ''AZURE_OPENAI_CHAT_DEPLOYMENT_NAME'',
                  api_version = env ''AZURE_OPENAI_API_VERSION'', api_key = Some ''''\<rparr>])"
proof -
  let ?kw = "\<lparr>endpoint = env ''AZURE_OPENAI_ENDPOINT'',
              deployment_name = env ''AZURE_OPENAI_CHAT_DEPLOYMENT_NAME'',
              api_version = env ''AZURE_OPENAI_API_VERSION'', api_key = Some ''''\<rparr>"
  from assms(2) have "endpoint ?kw = None \<or> deployment_name ?kw = None \<or> api_version ?kw = None"
    by simp
  with assms(1) have "isl (AzureOpenAIChatClient w ?kw)"
    unfolding fails_on_absent_def by blast
  then obtain e where raised: "AzureOpenAIChatClient w ?kw = Inl e"
    by (cases "AzureOpenAIChatClient w ?kw") simp_all
  show ?thesis
  proof (cases "DefaultAzureCredential w")
    case (Inl e')
    then show ?thesis by (simp add: script_eq)
  next
    case made: (Inr cred')
    show ?thesis
    proof (cases "get_token w cred' ''https://ai.azure.com/.default''")
      case (Inl e')
      with made show ?thesis by (auto simp add: script_eq)
    next
      case (Inr tok')
      with made raised show ?thesis by (auto simp add: script_eq)
    qed
  qed
qed

theorem absent_variable_fails_without_output_witness:
  "fails_on_absent (strict_stub ''Arr!'') \<and>
   partial_env ''AZURE_OPENAI_API_VERSION'' = None \<and>
   exit_status (snd (script (strict_stub ''Arr!'') partial_env ''__main__'')) \<noteq> 0 \<and>
   stdout (fst (script (strict_stub ''Arr!'') partial_env ''__main__'')) = [] \<and>
   last (fst (script (strict_stub ''Arr!'') partial_env ''__main__'')) =
     NewClient \<lparr>endpoint = Some ''https://example.openai.azure.com'',
                deployment_name = Some ''gpt-4o'', api_version = None, api_key = Some ''''\<rparr>"
proof -
  have contract: "fails_on_absent (strict_stub ''Arr!'')"
    by (simp add: fails_on_absent_def strict_stub_def)
  have token: "DefaultAzureCredential (strict_stub ''Arr!'') = Inr 0 \<and>
      get_token (strict_stub ''Arr!'') 0
        ''https://ai.azure.com/.default'' = Inr (AccessToken ''eyJ0'' 1762182000)"
    by (simp add: strict_stub_def)
  from absent_variable_fails_without_output [where w = "strict_stub ''Arr!''"
      and env = partial_env and nm = "''__main__''"
      and cred = 0 and tok = "AccessToken ''eyJ0'' 1762182000", OF contract] token
  show ?thesis using contract by simp
qed

subsection \<open>The single request\<close>

text \<open>
  C6. Whatever the collaborators answer, and so whatever the content of the response,
  a trace of the script holds at most one run call, and whatever follows that call in
  the trace is output: at most one write to standard output.
\<close>

theorem single_shot:
  "length (filter is_Run (fst (script w env nm))) \<le> 1 \<and>
   filter (\<lambda>ev. \<not> is_Stdout ev) (tl (dropWhile (\<lambda>ev. \<not> is_Run ev) (fst (script w env nm)))) = [] \<and>
   length (tl (dropWhile (\<lambda>ev. \<not> is_Run ev) (fst (script w env nm)))) \<le> 1"
  by (simp add: script_eq Let_def split: sum.splits)

theorem single_shot_witness:
  "length (filter is_Run (fst (script (stub ''Arr!'') example_env ''__main__''))) \<le> 1 \<and>
   tl (dropWhile (\<lambda>ev. \<not> is_Run ev) (fst (script (stub ''Arr!'') example_env ''__main__'')))
     = [Stdout ''Arr!\<newline>'']"
  using single_shot [of "stub ''Arr!''" example_env "''__main__''"]
  by (simp add: script_eq)

subsection \<open>Failures\<close>

text \<open>
  C5. An exception raised while the credential is acquired (by its constructor or by
  the token request), by \<open>create_agent\<close> or by the run call is the ending of the
  execution: it is uncaught, and the exit status is not zero. The call that raised is
  made once and nothing follows it in the trace, so there is no retry and no further
  request, and nothing is written to standard output.
\<close>

theorem failure_propagates_uncaught:
  "(DefaultAzureCredential w = Inl e \<longrightarrow>
      script w env nm = ([], Uncaught e) \<and>
      exit_status (snd (script w env nm)) \<noteq> 0) \<and>
   (DefaultAzureCredential w = Inr cred \<and>
    get_token w cred ''https://ai.azure.com/.default'' = Inl e \<longrightarrow>
      script w env nm = ([GetToken ''https://ai.azure.com/.default''], Uncaught e) \<and>
      exit_status (snd (script w env nm)) \<noteq> 0) \<and>
   (DefaultAzureCredential w = Inr cred \<and>
    get_token w cred ''https://ai.azure.com/.default'' = Inr tok \<and>
    AzureOpenAIChatClient w
      \<lparr>endpoint = env ''AZURE_OPENAI_ENDPOINT'',
       deployment_name = env ''AZURE_OPENAI_CHAT_DEPLOYMENT_NAME'',
       api_version = env ''AZURE_OPENAI_API_VERSION'', api_key = Some ''''\<rparr> = Inr client \<and>
    create_agent w client ''You are good at telling jokes.'' ''Joker'' = Inl e \<longrightarrow>
      snd (script w env nm) = Uncaught e \<and>
      exit_status (snd (script w env nm)) \<noteq> 0 \<and>
      last (fst (script w env nm)) = CreateAgent client ''You are good at telling jokes.'' ''Joker'' \<and>
      filter is_CreateAgent (fst (script w env nm)) =
        [CreateAgent client ''You are good at telling jokes.'' ''Joker''] \<and>
      stdout (fst (script w env nm)) = []) \<and>
   (DefaultAzureCredential w = Inr cred \<and>
    get_token w cred ''https://ai.azure.com/.default'' = Inr tok \<and>
    AzureOpenAIChatClient w
      \<lparr>endpoint = env ''AZURE_OPENAI_ENDPOINT'',
       deployment_name = env ''AZURE_OPENAI_CHAT_DEPLOYMENT_NAME'',
       api_version = env ''AZURE_OPENAI_API_VERSION'', api_key = Some ''''\<rparr> = Inr client \<and>
    create_agent w client ''You are good at telling jokes.'' ''Joker'' = Inr a \<and>
    run w a ''Tell me a joke about a pirate.'' = Inl e \<longrightarrow>
      snd (script w env ''__main__'') = Uncaught e \<and>
      exit_status (snd (script w env ''__main__'')) \<noteq> 0 \<and>
      last (fst (script w env ''__main__'')) = Run a ''Tell me a joke about a pirate.'' \<and>
      filter is_Run (fst (script w env ''__main__'')) = [Run a ''Tell me a joke about a pirate.''] \<and>
      stdout (fst (script w env ''__main__'')) = [])"
proof (intro conjI impI)
  assume "DefaultAzureCredential w = Inl e"
  then show "script w env nm = ([], Uncaught e)"
    and "exit_status (snd (script w env nm)) \<noteq> 0"
    by (simp_all add: script_eq)
next
  assume "DefaultAzureCredential w = Inr cred \<and>
    get_token w cred ''https://ai.azure.com/.default'' = Inl e"
  then show "script w env nm = ([GetToken ''https://ai.azure.com/.default''], Uncaught e)"
    and "exit_status (snd (script w env nm)) \<noteq> 0"
    by (simp_all add: script_eq)
qed (simp_all add: script_eq)

theorem failure_propagates_uncaught_witness:
  "script ((stub ''Arr!'')\<lparr>DefaultAzureCredential := Inl (Exn ''bad chain'')\<rparr>)
      example_env ''__main__'' = ([], Uncaught (Exn ''bad chain'')) \<and>
   script ((stub ''Arr!'')\<lparr>get_token := \<lambda>c s. Inl (Exn ''no credential'')\<rparr>)
      example_env ''__main__'' =
     ([GetToken ''https://ai.azure.com/.default''], Uncaught (Exn ''no credential'')) \<and>
   snd (script ((stub ''Arr!'')\<lparr>create_agent := \<lambda>c i n. Inl (Exn ''refused'')\<rparr>)
      example_env ''__main__'') = Uncaught (Exn ''refused'') \<and>
   last (fst (script ((stub ''Arr!'')\<lparr>create_agent := \<lambda>c i n. Inl (Exn ''refused'')\<rparr>)
      example_env ''__main__'')) = CreateAgent 1 ''You are good at telling jokes.'' ''Joker'' \<and>
   snd (script ((stub ''Arr!'')\<lparr>run := \<lambda>a p. Inl (Exn ''timeout'')\<rparr>)
      example_env ''__main__'') = Uncaught (Exn ''timeout'') \<and>
   last (fst (script ((stub ''Arr!'')\<lparr>run := \<lambda>a p. Inl (Exn ''timeout'')\<rparr>)
      example_env ''__main__'')) = Run 2 ''Tell me a joke about a pirate.'' \<and>
   stdout (fst (script ((stub ''Arr!'')\<lparr>run := \<lambda>a p. Inl (Exn ''timeout'')\<rparr>)
      example_env ''__main__'')) = []"
  using
    failure_propagates_uncaught [where e = "Exn ''bad chain''"
      and w = "(stub ''Arr!'')\<lparr>DefaultAzureCredential := Inl (Exn ''bad chain'')\<rparr>"
      and env = example_env and nm = "''__main__''"]
    failure_propagates_uncaught [where e = "Exn ''no credential''"
      and w = "(stub ''Arr!'')\<lparr>get_token := \<lambda>c s. Inl (Exn ''no credential'')\<rparr>"
      and env = example_env and nm = "''__main__''" and cred = 0]
    failure_propagates_uncaught [where e = "Exn ''refused''"
      and w = "(stub ''Arr!'')\<lparr>create_agent := \<lambda>c i n. Inl (Exn ''refused'')\<rparr>"
      and env = example_env and nm = "''__main__''" and client = 1
      and cred = 0 and tok = "AccessToken ''eyJ0'' 1762182000"]
    failure_propagates_uncaught [where e = "Exn ''timeout''"
      and w = "(stub ''Arr!'')\<lparr>run := \<lambda>a p. Inl (Exn ''timeout'')\<rparr>"
      and env = example_env and client = 1 and a = 2
      and cred = 0 and tok = "AccessToken ''eyJ0'' 1762182000"]
  by (simp add: stub_def)

subsection \<open>The token request\<close>

text \<open>
  C7, as stated, fails: not every execution reaches line 8. When the constructor of the
  credential in line 7 raises, the execution ends there, uncaught, and the token has
  been requested not once but never.
\<close>

theorem no_token_request_without_credential:
  "script ((stub ''Arr!'')\<lparr>DefaultAzureCredential := Inl (Exn ''bad chain'')\<rparr>)
      example_env ''__main__'' = ([], Uncaught (Exn ''bad chain'')) \<and>
   filter is_GetToken
     (fst (script ((stub ''Arr!'')\<lparr>DefaultAzureCredential := Inl (Exn ''bad chain'')\<rparr>)
        example_env ''__main__'')) = [] \<and>
   length (filter is_GetToken
     (fst (script ((stub ''Arr!'')\<lparr>DefaultAzureCredential := Inl (Exn ''bad chain'')\<rparr>)
        example_env ''__main__''))) \<noteq> 1"
  by (simp add: script_eq stub_def)

text \<open>
  C7, amended. In every execution in which the credential is constructed, whatever
  \<open>__name__\<close> is and whatever the later calls answer, the token is requested exactly
  once, with the scope "https://ai.azure.com/.default". The request is the first event
  of the trace, and it lies in the part of the trace that precedes the construction of
  the client.
\<close>

theorem token_requested_once_first:
  assumes "DefaultAzureCredential w = Inr cred"
  shows "filter is_GetToken (fst (script w env nm)) = [GetToken ''https://ai.azure.com/.default''] \<and>
         hd (fst (script w env nm)) = GetToken ''https://ai.azure.com/.default'' \<and>
         filter is_GetToken (takeWhile (\<lambda>ev. \<not> is_NewClient ev) (fst (script w env nm))) =
           [GetToken ''https://ai.azure.com/.default'']"
  using assms by (simp add: script_eq Let_def split: sum.splits)

theorem token_requested_once_first_witness:
  "DefaultAzureCredential (stub ''Arr!'') = Inr 0 \<and>
   filter is_GetToken (fst (script (stub ''Arr!'') example_env ''__main__'')) =
     [GetToken ''https://ai.azure.com/.default''] \<and>
   takeWhile (\<lambda>ev. \<not> is_NewClient ev) (fst (script (stub ''Arr!'') example_env ''__main__'')) =
     [GetToken ''https://ai.azure.com/.default'', Getenv ''AZURE_OPENAI_ENDPOINT'',
      Getenv ''AZURE_OPENAI_CHAT_DEPLOYMENT_NAME'', Getenv ''AZURE_OPENAI_API_VERSION'']"
  using token_requested_once_first [where w = "stub ''Arr!''" and cred = 0
      and env = example_env and nm = "''__main__''"]
  by (simp add: script_eq)

text \<open>
  C9. The token is not used. Two executions that differ only in the token the credential
  resolver returns are the same execution: the same trace, hence the same arguments to
  the client and the same output, and the same ending. No client is constructed with an
  API key other than the empty string, and once the credential is constructed (so that
  the token is obtained) the client is constructed once, with the empty string as key.
\<close>

theorem token_noninterference:
  "script (w\<lparr>get_token := \<lambda>c s. Inr t1\<rparr>) env nm = script (w\<lparr>get_token := \<lambda>c s. Inr t2\<rparr>) env nm \<and>
   filter (\<lambda>kw. api_key kw \<noteq> Some '''')
     (configs (fst (script (w\<lparr>get_token := \<lambda>c s. Inr t1\<rparr>) env nm))) = [] \<and>
   (DefaultAzureCredential w = Inr cred \<longrightarrow>
      map api_key (configs (fst (script (w\<lparr>get_token := \<lambda>c s. Inr t1\<rparr>) env nm))) = [Some ''''])"
proof (intro conjI impI)
  show "script (w\<lparr>get_token := \<lambda>c s. Inr t1\<rparr>) env nm = script (w\<lparr>get_token := \<lambda>c s. Inr t2\<rparr>) env nm"
    by (simp add: script_eq Let_def split: sum.splits)
  show "filter (\<lambda>kw. api_key kw \<noteq> Some '''')
     (configs (fst (script (w\<lparr>get_token := \<lambda>c s. Inr t1\<rparr>) env nm))) = []"
    by (simp add: script_eq Let_def split: sum.splits)
next
  assume "DefaultAzureCredential w = Inr cred"
  then show "map api_key (configs (fst (script (w\<lparr>get_token := \<lambda>c s. Inr t1\<rparr>) env nm))) = [Some '''']"
    by (simp add: script_eq Let_def split: sum.splits)
qed

theorem token_noninterference_witness:
  "script ((stub ''Arr!'')\<lparr>get_token := \<lambda>c s. Inr (AccessToken ''eyJ0'' 1762182000)\<rparr>)
      example_env ''__main__'' =
   script ((stub ''Arr!'')\<lparr>get_token := \<lambda>c s. Inr (AccessToken ''another'' 7)\<rparr>)
      example_env ''__main__'' \<and>
   map api_key (configs (fst (script
      ((stub ''Arr!'')\<lparr>get_token := \<lambda>c s. Inr (AccessToken ''eyJ0'' 1762182000)\<rparr>)
      example_env ''__main__''))) = [Some ''''] \<and>
   stdout (fst (script ((stub ''Arr!'')\<lparr>get_token := \<lambda>c s. Inr (AccessToken ''another'' 7)\<rparr>)
      example_env ''__main__'')) = ''Arr!\<newline>''"
  using token_noninterference [where w = "stub ''Arr!''" and env = example_env
      and nm = "''__main__''" and ?t1.0 = "AccessToken ''eyJ0'' 1762182000"
      and ?t2.0 = "AccessToken ''another'' 7" and cred = 0]
  by (simp add: script_eq stub_def)

subsection \<open>The order of the steps\<close>

text \<open>
  C8. A successful execution as the main module, one in which the constructor of the
  credential, the token request, the constructor of the client, \<open>create_agent\<close> and
  the run call all return, is this sequence and no other: after the token request of line 8, the three reads of the environment, the
  construction of the client with the values read, \<open>create_agent\<close> with the fixed
  instructions and name on that client, the run call with the prompt on the agent
  returned, and, with the response that call returned, the write of its text to standard
  output. It ends normally.
\<close>

theorem steps_in_order:
  assumes "DefaultAzureCredential w = Inr cred"
    and "get_token w cred ''https://ai.azure.com/.default'' = Inr tok"
    and "AzureOpenAIChatClient w
           \<lparr>endpoint = env ''AZURE_OPENAI_ENDPOINT'',
            deployment_name = env ''AZURE_OPENAI_CHAT_DEPLOYMENT_NAME'',
            api_version = env ''AZURE_OPENAI_API_VERSION'', api_key = Some ''''\<rparr> = Inr client"
    and "create_agent w client ''You are good at telling jokes.'' ''Joker'' = Inr a"
    and "run w a ''Tell me a joke about a pirate.'' = Inr r"
  shows "script w env ''__main__'' =
           ([GetToken ''https://ai.azure.com/.default'',
             Getenv ''AZURE_OPENAI_ENDPOINT'',
             Getenv ''AZURE_OPENAI_CHAT_DEPLOYMENT_NAME'',
             Getenv ''AZURE_OPENAI_API_VERSION'',
             NewClient \<lparr>endpoint = env ''AZURE_OPENAI_ENDPOINT'',
                        deployment_name = env ''AZURE_OPENAI_CHAT_DEPLOYMENT_NAME'',
                        api_version = env ''AZURE_OPENAI_API_VERSION'', api_key = Some ''''\<rparr>,
             CreateAgent client ''You are good at telling jokes.'' ''Joker'',
             Run a ''Tell me a joke about a pirate.'',
             Stdout (result_text w r @ ''\<newline>'')],
            Completed)"
  by (simp add: script_eq assms)

theorem steps_in_order_witness:
  "run (stub ''Arr!'') 2 ''Tell me a joke about a pirate.'' = Inr ''Arr!'' \<and>
   script (stub ''Arr!'') example_env ''__main__'' =
     ([GetToken ''https://ai.azure.com/.default'',
       Getenv ''AZURE_OPENAI_ENDPOINT'',
       Getenv ''AZURE_OPENAI_CHAT_DEPLOYMENT_NAME'',
       Getenv ''AZURE_OPENAI_API_VERSION'',
       NewClient \<lparr>endpoint = Some ''https://example.openai.azure.com'',
                  deployment_name = Some ''gpt-4o'',
                  api_version = Some ''2024-10-21'', api_key = Some ''''\<rparr>,
       CreateAgent 1 ''You are good at telling jokes.'' ''Joker'',
       Run 2 ''Tell me a joke about a pirate.'',
       Stdout ''Arr!\<newline>''],
      Completed)"
  using steps_in_order [where w = "stub ''Arr!''" and env = example_env
      and cred = 0 and tok = "AccessToken ''eyJ0'' 1762182000" and client = 1 and a = 2 and r = "''Arr!''"]
  by simp

subsection \<open>The main guard\<close>

text \<open>
  C10. The token request, the construction of the client and \<open>create_agent\<close> belong to
  the module level: whatever \<open>__name__\<close> is, the events of an execution other than the
  run call and the write are exactly the events of the module level. Once the
  credential is constructed these begin with the token request, and when that and the
  constructor of the client return they end with \<open>create_agent\<close>.
  When \<open>__name__\<close> is not "\_\_main\_\_" (the module is imported), the execution is the
  module level and nothing more: it holds no run call.
\<close>

theorem module_level_unguarded:
  "filter (\<lambda>ev. \<not> is_Run ev \<and> \<not> is_Stdout ev) (fst (script w env nm)) = fst (agent w env []) \<and>
   (DefaultAzureCredential w = Inr cred \<longrightarrow>
      hd (fst (agent w env [])) = GetToken ''https://ai.azure.com/.default'') \<and>
   (DefaultAzureCredential w = Inr cred \<and>
    get_token w cred ''https://ai.azure.com/.default'' = Inr tok \<and>
    AzureOpenAIChatClient w
      \<lparr>endpoint = env ''AZURE_OPENAI_ENDPOINT'',
       deployment_name = env ''AZURE_OPENAI_CHAT_DEPLOYMENT_NAME'',
       api_version = env ''AZURE_OPENAI_API_VERSION'', api_key = Some ''''\<rparr> = Inr client \<longrightarrow>
      last (fst (agent w env [])) = CreateAgent client ''You are good at telling jokes.'' ''Joker'') \<and>
   (nm \<noteq> ''__main__'' \<longrightarrow>
      fst (script w env nm) = fst (agent w env []) \<and>
      filter is_Run (fst (script w env nm)) = [])"
proof (intro conjI impI)
  show "filter (\<lambda>ev. \<not> is_Run ev \<and> \<not> is_Stdout ev) (fst (script w env nm)) = fst (agent w env [])"
    by (simp add: script_eq agent_eq Let_def split: sum.splits)
next
  assume "DefaultAzureCredential w = Inr cred"
  then show "hd (fst (agent w env [])) = GetToken ''https://ai.azure.com/.default''"
    by (simp add: agent_eq Let_def split: sum.splits)
next
  assume "DefaultAzureCredential w = Inr cred \<and>
    get_token w cred ''https://ai.azure.com/.default'' = Inr tok \<and>
    AzureOpenAIChatClient w
      \<lparr>endpoint = env ''AZURE_OPENAI_ENDPOINT'',
       deployment_name = env ''AZURE_OPENAI_CHAT_DEPLOYMENT_NAME'',
       api_version = env ''AZURE_OPENAI_API_VERSION'', api_key = Some ''''\<rparr> = Inr client"
  then show "last (fst (agent w env [])) = CreateAgent client ''You are good at telling jokes.'' ''Joker''"
    by (simp add: agent_eq)
next
  assume imported: "nm \<noteq> ''__main__''"
  then show "fst (script w env nm) = fst (agent w env [])"
    by (simp add: script_eq agent_eq Let_def split: sum.splits)
  from imported show "filter is_Run (fst (script w env nm)) = []"
    by (simp add: script_eq Let_def split: sum.splits)
qed

theorem module_level_unguarded_witness:
  "''agent'' \<noteq> ''__main__'' \<and>
   fst (script (stub ''Arr!'') example_env ''agent'') =
     [GetToken ''https://ai.azure.com/.default'',
      Getenv ''AZURE_OPENAI_ENDPOINT'',
      Getenv ''AZURE_OPENAI_CHAT_DEPLOYMENT_NAME'',
      Getenv ''AZURE_OPENAI_API_VERSION'',
      NewClient \<lparr>endpoint = Some ''https://example.openai.azure.com'',
                 deployment_name = Some ''gpt-4o'',
                 api_version = Some ''2024-10-21'', api_key = Some ''''\<rparr>,
      CreateAgent 1 ''You are good at telling jokes.'' ''Joker''] \<and>
   filter is_Run (fst (script (stub ''Arr!'') example_env ''agent'')) = []"
  using module_level_unguarded [where w = "stub ''Arr!''" and env = example_env
      and nm = "''agent''" and cred = 0 and tok = "AccessToken ''eyJ0'' 1762182000" and client = 1]
  by (simp add: agent_eq)

end
